theory Spec2Isabelle
  imports Main "HOL-Library.Word"
begin

section \<open>The value-holder class of \<^verbatim>\<open>002_explicit_ctr.cpp\<close>\<close>

text \<open>
  \<^verbatim>\<open>class Widget { int i_; int j_; ... }\<close> has two data members of type \<^verbatim>\<open>int\<close>.
  A member that no constructor initialiser writes keeps an indeterminate value; the model
  makes that state visible: a member holds \<open>Some x\<close> once it was initialised with \<open>x\<close>
  and \<open>None\<close> while it is indeterminate. The members \<^verbatim>\<open>i_\<close> and \<^verbatim>\<open>j_\<close> are called
  \<open>i_field\<close> and \<open>j_field\<close>, since a name may not end in an underscore here. No
  arithmetic is done on the members, so the width of \<^verbatim>\<open>int\<close> (32 bits here, the width
  the sibling test asserts) plays no role.
\<close>

type_synonym cint = "32 word"

record Widget =
  i_field :: "cint option"
  j_field :: "cint option"

text \<open>An object of the class before any member initialiser has run.\<close>

definition default_initialized :: Widget where
  "default_initialized = \<lparr>i_field = None, j_field = None\<rparr>"

text \<open>
  Line 9, \<^verbatim>\<open>Widget(int i) : i_(i) {}\<close>: the initialiser list names \<^verbatim>\<open>i_\<close> only and the
  body is empty.
\<close>

definition Widget_int :: "cint \<Rightarrow> Widget" where
  "Widget_int i = default_initialized\<lparr>i_field := Some i\<rparr>"

text \<open>Line 10, \<^verbatim>\<open>explicit Widget(int i, int j) : i_(i), j_(j) {}\<close>.\<close>

definition Widget_int_int :: "cint \<Rightarrow> cint \<Rightarrow> Widget" where
  "Widget_int_int i j = default_initialized\<lparr>i_field := Some i, j_field := Some j\<rparr>"

section \<open>Which constructor a construction site may use\<close>

text \<open>
  The class declares two constructors (lines 9 and 10); only the second carries the
  keyword \<^verbatim>\<open>explicit\<close>.
\<close>

datatype ctor = Ctor_int | Ctor_int_int

fun is_explicit :: "ctor \<Rightarrow> bool" where
  "is_explicit Ctor_int = False"
| "is_explicit Ctor_int_int = True"

fun arity :: "ctor \<Rightarrow> nat" where
  "arity Ctor_int = 1"
| "arity Ctor_int_int = 2"

definition declared_ctors :: "ctor list" where
  "declared_ctors = [Ctor_int, Ctor_int_int]"

fun construct :: "ctor \<Rightarrow> cint list \<Rightarrow> Widget option" where
  "construct Ctor_int [i] = Some (Widget_int i)"
| "construct Ctor_int_int [i, j] = Some (Widget_int_int i j)"
| "construct _ _ = None"

text \<open>
  An argument written at a call site of the test is either a bare \<^verbatim>\<open>int\<close> expression
  (\<^verbatim>\<open>1\<close>, \<^verbatim>\<open>2\<close>) or an expression of class type (\<^verbatim>\<open>Widget(1,2)\<close>).
\<close>

datatype arg = Int_arg cint | Widget_arg Widget

text \<open>
  The two ways the test creates elements: direct initialisation, which names the class
  and hands the arguments to a constructor (\<^verbatim>\<open>Widget(1,2)\<close>, and what
  \<^verbatim>\<open>emplace_back\<close> does with its forwarded arguments), and implicit conversion of an
  argument to the parameter type (\<^verbatim>\<open>push_back(1)\<close>). An explicit constructor is a
  candidate for the first only.
\<close>

datatype init_kind = Direct_init | Implicit_conversion

text \<open>
  What can go wrong: a call the compiler rejects, and a failed test assertion, which
  carries the two values that were compared.
\<close>

datatype failure = Ill_formed | Assertion_mismatch nat nat

fun usable :: "init_kind \<Rightarrow> ctor \<Rightarrow> bool" where
  "usable Direct_init c = True"
| "usable Implicit_conversion c = (\<not> is_explicit c)"

definition viable :: "init_kind \<Rightarrow> nat \<Rightarrow> ctor list" where
  "viable k n = filter (\<lambda>c. arity c = n \<and> usable k c) declared_ctors"

fun bare_ints :: "arg list \<Rightarrow> cint list option" where
  "bare_ints [] = Some []"
| "bare_ints (Int_arg i # as) = map_option (\<lambda>is. i # is) (bare_ints as)"
| "bare_ints (Widget_arg w # as) = None"

text \<open>
  A single argument of class type is copied (or moved) by the implicitly declared copy
  constructor, member by member; bare integers go to the one viable declared constructor.
\<close>

fun initialize :: "init_kind \<Rightarrow> arg list \<Rightarrow> failure + Widget" where
  "initialize k [Widget_arg w] = Inr w"
| "initialize k as =
     (case bare_ints as of
        None \<Rightarrow> Inl Ill_formed
      | Some is \<Rightarrow>
          (case viable k (length is) of
             [c] \<Rightarrow> (case construct c is of None \<Rightarrow> Inl Ill_formed | Some w \<Rightarrow> Inr w)
           | _ \<Rightarrow> Inl Ill_formed))"

section \<open>The growable sequence\<close>

text \<open>
  \<^verbatim>\<open>std::vector<Widget>\<close> as the list of its elements, first to last. Storage
  allocation is taken to succeed. \<^verbatim>\<open>emplace_back\<close> takes any number of arguments and
  direct-initialises the new last element from them; \<^verbatim>\<open>push_back\<close> has one parameter,
  of the element type, so its one argument is converted implicitly where it is not a
  \<^verbatim>\<open>Widget\<close> already.
\<close>

type_synonym vector = "Widget list"

definition bind_result :: "failure + 'a \<Rightarrow> ('a \<Rightarrow> failure + 'b) \<Rightarrow> failure + 'b" where
  "bind_result r f = (case r of Inl e \<Rightarrow> Inl e | Inr x \<Rightarrow> f x)"

definition emplace_back :: "vector \<Rightarrow> arg list \<Rightarrow> failure + vector" where
  "emplace_back v as = bind_result (initialize Direct_init as) (\<lambda>w. Inr (v @ [w]))"

definition push_back :: "vector \<Rightarrow> arg list \<Rightarrow> failure + vector" where
  "push_back v as =
     (case as of
        [a] \<Rightarrow> bind_result (initialize Implicit_conversion [a]) (\<lambda>w. Inr (v @ [w]))
      | _ \<Rightarrow> Inl Ill_formed)"

definition size_vector :: "vector \<Rightarrow> nat" where
  "size_vector v = length v"

section \<open>The test framework's assertion\<close>

text \<open>
  Modelled from the spec: the macro \<^verbatim>\<open>ASSERT_EQ\<close> comes from \<^verbatim>\<open>gtest/gtest.h\<close>, which
  is not among the source files. The spec describes it as the single kind of error,
  an assertion mismatch raised when an observed value differs from the expected value,
  reported with both concrete values; a test runs to completion or assertion failure.
\<close>

definition ASSERT_EQ :: "nat \<Rightarrow> nat \<Rightarrow> failure + unit" where
  "ASSERT_EQ val1 val2 = (if val1 = val2 then Inr () else Inl (Assertion_mismatch val1 val2))"

section \<open>\<^verbatim>\<open>TEST(STLContainer, ExplicitCtrTests)\<close>\<close>

text \<open>
  The statements of lines 15, 16, 17 and 23, each a step from the sequence before it to
  the sequence after it. Lines 19 to 22 are comments.
\<close>

definition ExplicitCtrTests_stmts :: "(vector \<Rightarrow> failure + vector) list" where
  "ExplicitCtrTests_stmts =
     [\<lambda>v. emplace_back v [Int_arg 1],
      \<lambda>v. push_back v [Int_arg 1],
      \<lambda>v. emplace_back v [Int_arg 1, Int_arg 2],
      \<lambda>v. bind_result (initialize Direct_init [Int_arg 1, Int_arg 2])
             (\<lambda>w. push_back v [Widget_arg w])]"

fun run_stmts :: "(vector \<Rightarrow> failure + vector) list \<Rightarrow> vector \<Rightarrow> failure + vector" where
  "run_stmts [] v = Inr v"
| "run_stmts (s # ss) v = bind_result (s v) (run_stmts ss)"

text \<open>Line 14 declares the empty sequence; line 25 is the closing assertion.\<close>

definition ExplicitCtrTests :: "failure + unit" where
  "ExplicitCtrTests =
     bind_result (run_stmts ExplicitCtrTests_stmts []) (\<lambda>v. ASSERT_EQ (size_vector v) 4)"

section \<open>\<^verbatim>\<open>TEST(MemoryTests, TypeSizeAsserts)\<close>\<close>

datatype ctype = C_char | C_int | C_long | C_double

text \<open>
  The test of \<^verbatim>\<open>001_memory_sizes.cpp\<close>, lines 4 to 7. \<^verbatim>\<open>sizeof\<close> is evaluated by the
  compiler for its target; the test takes it as given, so the model takes it as a
  parameter. The literals \<^verbatim>\<open>1L\<close>, \<^verbatim>\<open>4L\<close>, \<^verbatim>\<open>8L\<close> are not negative, so comparing them
  with an unsigned size compares the numbers.
\<close>

definition TypeSizeAsserts :: "(ctype \<Rightarrow> nat) \<Rightarrow> failure + unit" where
  "TypeSizeAsserts sizeof =
     bind_result (ASSERT_EQ (sizeof C_char) 1) (\<lambda>_.
     bind_result (ASSERT_EQ (sizeof C_int) 4) (\<lambda>_.
     bind_result (ASSERT_EQ (sizeof C_long) 8) (\<lambda>_.
     ASSERT_EQ (sizeof C_double) 8)))"

text \<open>
  Modelled from the spec: the storage widths of the four primitive types on the target
  platform, which no source file defines. The spec gives them as character 1, integer 4,
  long integer 8 and double-precision float 8 bytes.
\<close>

fun sizeof_platform :: "ctype \<Rightarrow> nat" where
  "sizeof_platform C_char = 1"
| "sizeof_platform C_int = 4"
| "sizeof_platform C_long = 8"
| "sizeof_platform C_double = 8"

text \<open>
  Modelled from the spec: the test-execution boundary, which belongs to the test
  framework and is not among the source files. Each test case is a named, independently
  invocable unit that runs once and reports its own outcome.
\<close>

definition RUN_ALL_TESTS :: "(ctype \<Rightarrow> nat) \<Rightarrow> (string \<times> (failure + unit)) list" where
  "RUN_ALL_TESTS sizeof =
     [(''MemoryTests.TypeSizeAsserts'', TypeSizeAsserts sizeof),
      (''STLContainer.ExplicitCtrTests'', ExplicitCtrTests)]"

section \<open>Single calls\<close>

lemma viable_direct_1: "viable Direct_init (Suc 0) = [Ctor_int]"
  by (simp add: viable_def declared_ctors_def)

lemma viable_implicit_1: "viable Implicit_conversion (Suc 0) = [Ctor_int]"
  by (simp add: viable_def declared_ctors_def)

lemma viable_direct_2: "viable Direct_init 2 = [Ctor_int_int]"
  by (simp add: viable_def declared_ctors_def)

lemma viable_implicit_2: "viable Implicit_conversion 2 = []"
  by (simp add: viable_def declared_ctors_def)

lemma initialize_int: "initialize k [Int_arg x] = Inr (Widget_int x)"
  by (cases k) (simp_all add: viable_def declared_ctors_def)

lemma initialize_direct_int_int:
  "initialize Direct_init [Int_arg x, Int_arg y] = Inr (Widget_int_int x y)"
  by (simp add: viable_def declared_ctors_def)

lemma initialize_implicit_int_int:
  "initialize Implicit_conversion [Int_arg x, Int_arg y] = Inl Ill_formed"
  by (simp add: viable_def declared_ctors_def)

lemma emplace_back_int: "emplace_back v [Int_arg x] = Inr (v @ [Widget_int x])"
  by (simp add: emplace_back_def bind_result_def initialize_int del: initialize.simps)

lemma push_back_int: "push_back v [Int_arg x] = Inr (v @ [Widget_int x])"
  by (simp add: push_back_def bind_result_def initialize_int del: initialize.simps)

lemma emplace_back_int_int:
  "emplace_back v [Int_arg x, Int_arg y] = Inr (v @ [Widget_int_int x y])"
  by (simp add: emplace_back_def bind_result_def initialize_direct_int_int
      del: initialize.simps)

lemma push_back_Widget: "push_back v [Widget_arg w] = Inr (v @ [w])"
  by (simp add: push_back_def bind_result_def)

lemma push_back_constructed:
  "bind_result (initialize Direct_init [Int_arg x, Int_arg y])
     (\<lambda>w. push_back v [Widget_arg w]) = Inr (v @ [Widget_int_int x y])"
  by (simp add: initialize_direct_int_int push_back_Widget bind_result_def
      del: initialize.simps)

lemma push_back_int_int: "push_back v [Int_arg x, Int_arg y] = Inl Ill_formed"
  by (simp add: push_back_def)

section \<open>The two tests as a whole\<close>

text \<open>Each statement of the test, with its call evaluated.\<close>

lemma stmts_unfold:
  "ExplicitCtrTests_stmts =
     [\<lambda>v. Inr (v @ [Widget_int 1]), \<lambda>v. Inr (v @ [Widget_int 1]),
      \<lambda>v. Inr (v @ [Widget_int_int 1 2]), \<lambda>v. Inr (v @ [Widget_int_int 1 2])]"
  unfolding ExplicitCtrTests_stmts_def emplace_back_int push_back_int emplace_back_int_int
    push_back_constructed ..

lemma take_stmts:
  "take 0 ExplicitCtrTests_stmts = []"
  "take (Suc 0) ExplicitCtrTests_stmts = [\<lambda>v. Inr (v @ [Widget_int 1])]"
  "take 2 ExplicitCtrTests_stmts =
     [\<lambda>v. Inr (v @ [Widget_int 1]), \<lambda>v. Inr (v @ [Widget_int 1])]"
  "take 3 ExplicitCtrTests_stmts =
     [\<lambda>v. Inr (v @ [Widget_int 1]), \<lambda>v. Inr (v @ [Widget_int 1]),
      \<lambda>v. Inr (v @ [Widget_int_int 1 2])]"
  "take 4 ExplicitCtrTests_stmts = ExplicitCtrTests_stmts"
  by (simp_all add: stmts_unfold numeral_2_eq_2 numeral_3_eq_3)

lemma run_ExplicitCtrTests_stmts:
  "run_stmts ExplicitCtrTests_stmts [] =
     Inr [Widget_int 1, Widget_int 1, Widget_int_int 1 2, Widget_int_int 1 2]"
  by (simp add: stmts_unfold bind_result_def)

lemma ExplicitCtrTests_passes: "ExplicitCtrTests = Inr ()"
  by (simp add: ExplicitCtrTests_def run_ExplicitCtrTests_stmts bind_result_def ASSERT_EQ_def
      size_vector_def)

text \<open>
  The size test passes on exactly one table of widths: a target with another width for
  any of the four types fails it.
\<close>

lemma TypeSizeAsserts_iff:
  "TypeSizeAsserts sizeof = Inr () \<longleftrightarrow>
     sizeof C_char = 1 \<and> sizeof C_int = 4 \<and> sizeof C_long = 8 \<and> sizeof C_double = 8"
  by (simp add: TypeSizeAsserts_def ASSERT_EQ_def bind_result_def)

section \<open>The constructor-explicitness test\<close>

text \<open>
  C1: after the four insertions of the test (one-argument in-place construction,
  implicit conversion from a bare value, two-argument in-place construction, insertion
  of a value constructed beforehand) the sequence holds exactly 4 elements, and the
  closing size assertion succeeds.
\<close>

theorem ExplicitCtrTests_holds_four:
  "(\<exists>v. run_stmts ExplicitCtrTests_stmts [] = Inr v \<and> size_vector v = 4) \<and>
   ExplicitCtrTests = Inr ()"
  by (simp add: ExplicitCtrTests_passes run_ExplicitCtrTests_stmts size_vector_def)

text \<open>
  C3: starting from the empty sequence, one-argument in-place construction gives size 1,
  implicit conversion from a bare value then gives size 2, two-argument in-place
  construction then gives size 3, and inserting a value constructed beforehand with two
  arguments then gives size 4. These four calls, in this order, are what the first one,
  two, three and four statements of the test compute, and the closing assertion compares
  the last size with 4.
\<close>

theorem size_after_each_insertion:
  "size_vector [] = 0 \<and>
   (\<exists>v1 v2 v3 v4.
      emplace_back [] [Int_arg 1] = Inr v1 \<and> size_vector v1 = 1 \<and>
      push_back v1 [Int_arg 1] = Inr v2 \<and> size_vector v2 = 2 \<and>
      emplace_back v2 [Int_arg 1, Int_arg 2] = Inr v3 \<and> size_vector v3 = 3 \<and>
      bind_result (initialize Direct_init [Int_arg 1, Int_arg 2])
        (\<lambda>w. push_back v3 [Widget_arg w]) = Inr v4 \<and> size_vector v4 = 4 \<and>
      run_stmts (take 1 ExplicitCtrTests_stmts) [] = Inr v1 \<and>
      run_stmts (take 2 ExplicitCtrTests_stmts) [] = Inr v2 \<and>
      run_stmts (take 3 ExplicitCtrTests_stmts) [] = Inr v3 \<and>
      run_stmts (take 4 ExplicitCtrTests_stmts) [] = Inr v4 \<and>
      ASSERT_EQ (size_vector v4) 4 = Inr ())"
proof -
  let ?v1 = "[Widget_int 1]"
  let ?v2 = "[Widget_int 1, Widget_int 1]"
  let ?v3 = "[Widget_int 1, Widget_int 1, Widget_int_int 1 2]"
  let ?v4 = "[Widget_int 1, Widget_int 1, Widget_int_int 1 2, Widget_int_int 1 2]"
  have c1: "emplace_back [] [Int_arg 1] = Inr ?v1"
    by (simp add: emplace_back_int)
  have c2: "push_back ?v1 [Int_arg 1] = Inr ?v2"
    by (simp add: push_back_int)
  have c3: "emplace_back ?v2 [Int_arg 1, Int_arg 2] = Inr ?v3"
    by (simp add: emplace_back_int_int)
  have c4: "bind_result (initialize Direct_init [Int_arg 1, Int_arg 2])
      (\<lambda>w. push_back ?v3 [Widget_arg w]) = Inr ?v4"
    by (simp add: push_back_constructed del: initialize.simps)
  have r1: "run_stmts (take 1 ExplicitCtrTests_stmts) [] = Inr ?v1"
    by (simp add: take_stmts bind_result_def del: initialize.simps)
  have r2: "run_stmts (take 2 ExplicitCtrTests_stmts) [] = Inr ?v2"
    by (simp add: take_stmts bind_result_def)
  have r3: "run_stmts (take 3 ExplicitCtrTests_stmts) [] = Inr ?v3"
    by (simp add: take_stmts bind_result_def)
  have r4: "run_stmts (take 4 ExplicitCtrTests_stmts) [] = Inr ?v4"
    by (simp add: take_stmts run_ExplicitCtrTests_stmts)
  have sizes: "size_vector [] = 0" "size_vector ?v1 = 1" "size_vector ?v2 = 2"
    "size_vector ?v3 = 3" "size_vector ?v4 = 4"
    by (simp_all add: size_vector_def)
  have a: "ASSERT_EQ (size_vector ?v4) 4 = Inr ()"
    by (simp add: ASSERT_EQ_def size_vector_def)
  from c1 c2 c3 c4 r1 r2 r3 r4 sizes a show ?thesis
    by blast
qed

text \<open>
  C4: in-place construction with two arguments succeeds although the two-argument
  constructor is explicit. Direct initialisation finds that constructor, implicit
  conversion has no candidate for two arguments, and \<^verbatim>\<open>emplace_back\<close> appends the
  element the constructor builds; the third statement of the test is such a call.
\<close>

theorem emplace_back_uses_explicit_ctor:
  "is_explicit Ctor_int_int \<and>
   viable Direct_init 2 = [Ctor_int_int] \<and>
   viable Implicit_conversion 2 = [] \<and>
   emplace_back v [Int_arg x, Int_arg y] = Inr (v @ [Widget_int_int x y]) \<and>
   (ExplicitCtrTests_stmts ! 2) v = emplace_back v [Int_arg 1, Int_arg 2]"
  by (simp add: viable_direct_2 viable_implicit_2 emplace_back_int_int
      ExplicitCtrTests_stmts_def)

text \<open>
  C5: \<^verbatim>\<open>push_back\<close> with two bare arguments is rejected by the compiler, and no implicit
  conversion makes a \<^verbatim>\<open>Widget\<close> of two bare arguments. The call is a comment in the
  source: it is not one of the statements the test runs.
\<close>

theorem push_back_two_bare_args_rejected:
  "push_back v [Int_arg x, Int_arg y] = Inl Ill_formed \<and>
   initialize Implicit_conversion [Int_arg x, Int_arg y] = Inl Ill_formed \<and>
   (\<lambda>v. push_back v [Int_arg x, Int_arg y]) \<notin> set ExplicitCtrTests_stmts"
proof (intro conjI)
  show "push_back v [Int_arg x, Int_arg y] = Inl Ill_formed"
    by (rule push_back_int_int)
  show "initialize Implicit_conversion [Int_arg x, Int_arg y] = Inl Ill_formed"
    by (rule initialize_implicit_int_int)
  show "(\<lambda>v. push_back v [Int_arg x, Int_arg y]) \<notin> set ExplicitCtrTests_stmts"
  proof
    assume "(\<lambda>v. push_back v [Int_arg x, Int_arg y]) \<in> set ExplicitCtrTests_stmts"
    then have "(\<lambda>v::vector. (Inl Ill_formed :: failure + vector))
        \<in> set ExplicitCtrTests_stmts"
      by (simp only: push_back_int_int)
    then have "\<exists>w. (Inl Ill_formed :: failure + vector) = Inr ([] @ [w])"
      unfolding stmts_unfold by (auto dest: fun_cong [where x = "[]"])
    then show False by simp
  qed
qed

text \<open>
  C6: \<^verbatim>\<open>push_back\<close> with one bare integer succeeds. The conversion uses the
  one-argument constructor, which is not explicit, and the element it builds is
  appended; the second statement of the test is such a call.
\<close>

theorem push_back_converts_bare_int:
  "\<not> is_explicit Ctor_int \<and>
   viable Implicit_conversion 1 = [Ctor_int] \<and>
   push_back v [Int_arg x] = Inr (v @ [Widget_int x]) \<and>
   (ExplicitCtrTests_stmts ! 1) v = push_back v [Int_arg 1]"
  by (simp add: viable_implicit_1 push_back_int ExplicitCtrTests_stmts_def)

text \<open>
  C8: the one-argument constructor initialises the first member from its argument and
  leaves the second indeterminate, so an element inserted through it, in place or by
  implicit conversion, has an indeterminate second member. In the test these are the
  first two elements; the last two have the second member set to 2.
\<close>

theorem one_arg_ctor_leaves_j_indeterminate:
  "i_field (Widget_int x) = Some x \<and> j_field (Widget_int x) = None \<and>
   (\<exists>w. emplace_back v [Int_arg x] = Inr (v @ [w]) \<and> j_field w = None) \<and>
   (\<exists>w. push_back v [Int_arg x] = Inr (v @ [w]) \<and> j_field w = None) \<and>
   map_sum id (map j_field) (run_stmts ExplicitCtrTests_stmts []) =
     Inr [None, None, Some 2, Some 2]"
  by (simp add: emplace_back_int push_back_int run_ExplicitCtrTests_stmts Widget_int_def
      Widget_int_int_def default_initialized_def)

text \<open>
  C9: every statement of the test is an insertion: run on any sequence, it succeeds,
  the size grows by exactly one, and the elements held before are still there, in the
  same order, in front of the new one.
\<close>

theorem every_stmt_appends_one:
  "\<forall>s \<in> set ExplicitCtrTests_stmts. \<forall>v. \<exists>v'. s v = Inr v' \<and>
     size_vector v' = size_vector v + 1 \<and> take (size_vector v) v' = v"
  by (simp add: stmts_unfold size_vector_def)

theorem every_stmt_appends_one_witness:
  "(\<lambda>v. push_back v [Int_arg 1]) \<in> set ExplicitCtrTests_stmts \<and>
   (\<exists>v'. push_back [Widget_int 7] [Int_arg 1] = Inr v' \<and>
     size_vector v' = size_vector [Widget_int 7] + 1 \<and>
     take (size_vector [Widget_int 7]) v' = [Widget_int 7])"
proof -
  have m: "(\<lambda>v. push_back v [Int_arg 1]) \<in> set ExplicitCtrTests_stmts"
    by (simp add: ExplicitCtrTests_stmts_def)
  from every_stmt_appends_one m
  have "\<forall>v. \<exists>v'. push_back v [Int_arg 1] = Inr v' \<and>
      size_vector v' = size_vector v + 1 \<and> take (size_vector v) v' = v"
    by (rule bspec)
  with m show ?thesis by blast
qed

text \<open>
  C10: for any integer argument, in-place construction from it and implicit conversion
  of it select the same one-argument constructor and append the same element, whose
  first member is the argument.
\<close>

theorem emplace_back_push_back_same_ctor:
  "viable Direct_init 1 = [Ctor_int] \<and> viable Implicit_conversion 1 = [Ctor_int] \<and>
   (\<exists>w1 w2. emplace_back v [Int_arg x] = Inr (v @ [w1]) \<and>
             push_back v [Int_arg x] = Inr (v @ [w2]) \<and>
             w1 = Widget_int x \<and> w2 = Widget_int x \<and>
             i_field w1 = Some x \<and> i_field w2 = Some x)"
  by (simp add: viable_direct_1 viable_implicit_1 emplace_back_int push_back_int
      Widget_int_def default_initialized_def)

section \<open>The size test and the reporting of failures\<close>

text \<open>
  C2: with the widths the specification gives for the target (character 1, integer 4,
  long integer 8, double-precision float 8 bytes), each of the four size assertions
  succeeds and the test passes.
\<close>

theorem TypeSizeAsserts_passes:
  "sizeof_platform C_char = 1 \<and> sizeof_platform C_int = 4 \<and>
   sizeof_platform C_long = 8 \<and> sizeof_platform C_double = 8 \<and>
   ASSERT_EQ (sizeof_platform C_char) 1 = Inr () \<and>
   ASSERT_EQ (sizeof_platform C_int) 4 = Inr () \<and>
   ASSERT_EQ (sizeof_platform C_long) 8 = Inr () \<and>
   ASSERT_EQ (sizeof_platform C_double) 8 = Inr () \<and>
   TypeSizeAsserts sizeof_platform = Inr ()"
  by (simp add: TypeSizeAsserts_iff ASSERT_EQ_def)

text \<open>
  C7: an assertion whose two values differ fails with exactly these two values. When
  the size test fails, its failure is that of one of its four assertions and carries the
  width found and the width expected. Whatever the size test does, the run reports both
  test cases, and the container test still passes.
\<close>

theorem assertion_mismatch_is_local:
  "(val1 \<noteq> val2 \<longrightarrow> ASSERT_EQ val1 val2 = Inl (Assertion_mismatch val1 val2)) \<and>
   (TypeSizeAsserts sizeof \<noteq> Inr () \<longrightarrow>
      (\<exists>T n. (T, n) \<in> set [(C_char, 1), (C_int, 4), (C_long, 8), (C_double, 8)] \<and>
          sizeof T \<noteq> n \<and>
          TypeSizeAsserts sizeof = Inl (Assertion_mismatch (sizeof T) n))) \<and>
   map fst (RUN_ALL_TESTS sizeof) =
     [''MemoryTests.TypeSizeAsserts'', ''STLContainer.ExplicitCtrTests''] \<and>
   map snd (RUN_ALL_TESTS sizeof) = [TypeSizeAsserts sizeof, Inr ()]"
  by (auto simp add: ASSERT_EQ_def TypeSizeAsserts_def bind_result_def RUN_ALL_TESTS_def
      ExplicitCtrTests_passes)

theorem assertion_mismatch_is_local_witness:
  "(3::nat) \<noteq> 4 \<and> ASSERT_EQ 3 4 = Inl (Assertion_mismatch 3 4) \<and>
   TypeSizeAsserts (sizeof_platform(C_long := 4)) \<noteq> Inr () \<and>
   (\<exists>T n. (T, n) \<in> set [(C_char, 1), (C_int, 4), (C_long, 8), (C_double, 8)] \<and>
       (sizeof_platform(C_long := 4)) T \<noteq> n \<and>
       TypeSizeAsserts (sizeof_platform(C_long := 4)) =
         Inl (Assertion_mismatch ((sizeof_platform(C_long := 4)) T) n)) \<and>
   map snd (RUN_ALL_TESTS (sizeof_platform(C_long := 4))) =
     [Inl (Assertion_mismatch 4 8), Inr ()]"
proof -
  have ne: "(3::nat) \<noteq> 4" by simp
  have fails: "TypeSizeAsserts (sizeof_platform(C_long := 4)) \<noteq> Inr ()"
    by (simp add: TypeSizeAsserts_iff)
  have val: "TypeSizeAsserts (sizeof_platform(C_long := 4)) = Inl (Assertion_mismatch 4 8)"
    by (simp add: TypeSizeAsserts_def ASSERT_EQ_def bind_result_def)
  from assertion_mismatch_is_local [of 3 4 "sizeof_platform(C_long := 4)"] ne fails
  show ?thesis by (simp add: val)
qed

end
